theory Spec2Isabelle
  imports Main
begin

section \<open>Configuration\<close>

text \<open>
  The module-level configuration of \<^verbatim>\<open>monitor_v2.py\<close>. A target is the dict
  \<^verbatim>\<open>{"ip": ..., "name": ...}\<close> built from the \<^verbatim>\<open>TARGETS\<close> environment variable; the
  values read from the environment are the fields of \<open>config\<close>, the literals of lines
  43 to 51 are constants.
\<close>

record target =
  ip :: string
  name :: string

record config =
  HEALTH_PORT :: int
  MONGO_URI :: string
  MY_SERVER_ID :: string
  TARGETS :: "target list"

definition CONFIRMATION_DELAY_MINUTES :: int where
  "CONFIRMATION_DELAY_MINUTES = 3"

definition REMINDER_INTERVAL_HOURS :: int where
  "REMINDER_INTERVAL_HOURS = 2"

definition MAX_RETRIES :: nat where
  "MAX_RETRIES = 3"

definition INITIAL_BACKOFF_SECONDS :: nat where
  "INITIAL_BACKOFF_SECONDS = 10"

definition GOOGLE_HEALTH_CHECK_URL :: string where
  "GOOGLE_HEALTH_CHECK_URL = ''https://www.google.com''"

section \<open>Strings and time\<close>

text \<open>Python's \<^verbatim>\<open>str\<close> of an integer, as the f-strings use it.\<close>

definition digit_char :: "nat \<Rightarrow> char" where
  "digit_char d =
     (if d = 0 then CHR ''0'' else if d = 1 then CHR ''1'' else if d = 2 then CHR ''2''
      else if d = 3 then CHR ''3'' else if d = 4 then CHR ''4'' else if d = 5 then CHR ''5''
      else if d = 6 then CHR ''6'' else if d = 7 then CHR ''7'' else if d = 8 then CHR ''8''
      else CHR ''9'')"

fun str_nat :: "nat \<Rightarrow> string" where
  "str_nat n =
     (if n < 10 then [digit_char n] else str_nat (n div 10) @ [digit_char (n mod 10)])"

declare str_nat.simps [simp del]

definition str_int :: "int \<Rightarrow> string" where
  "str_int i = (if i < 0 then CHR ''-'' # str_nat (nat (- i)) else str_nat (nat i))"

text \<open>\<^verbatim>\<open>', '.join(witnesses)\<close>\<close>

fun join :: "string \<Rightarrow> string list \<Rightarrow> string" where
  "join sep [] = []"
| "join sep [x] = x"
| "join sep (x # y # ys) = x @ sep @ join sep (y # ys)"

text \<open>
  A \<^verbatim>\<open>datetime\<close> in UTC is the number of microseconds since the epoch, a
  \<^verbatim>\<open>timedelta\<close> a number of microseconds. \<^verbatim>\<open>.replace(tzinfo=timezone.utc)\<close> on the naive
  UTC value that the store returns is the identity on this representation.

  \<^verbatim>\<open>td.total_seconds() / 60\<close> is a float in the source. Its comparisons with the
  integers 3 and 1 agree with the exact comparison of the microseconds, since the
  thresholds are floats themselves and rounding is monotone; \<^verbatim>\<open>int(...)\<close> truncates
  towards zero and agrees with \<open>whole_minutes\<close> for every span below \<open>2 ^ 53\<close>
  microseconds (285 years).
\<close>

definition minute :: int where
  "minute = 60000000"

definition hour :: int where
  "hour = 60 * minute"

definition whole_minutes :: "int \<Rightarrow> int" where
  "whole_minutes td = (if 0 \<le> td then td div minute else - ((- td) div minute))"

text \<open>
  \<^verbatim>\<open>strftime('%Y%m%d_%H%M%S')\<close>: the proleptic Gregorian date of a day number, and
  the fields zero-padded (the year to four digits, which is what every platform prints
  from the year 1000 on).
\<close>

definition civil_from_days :: "int \<Rightarrow> int \<times> int \<times> int" where
  "civil_from_days z0 =
     (let z = z0 + 719468;
          era = z div 146097;
          doe = z mod 146097;
          yoe = (doe - doe div 1460 + doe div 36524 - doe div 146096) div 365;
          doy = doe - (365 * yoe + yoe div 4 - yoe div 100);
          mp = (5 * doy + 2) div 153;
          d = doy - (153 * mp + 2) div 5 + 1;
          m = (if mp < 10 then mp + 3 else mp - 9);
          y = yoe + era * 400 + (if m \<le> 2 then 1 else 0)
      in (y, m, d))"

definition zero_pad :: "nat \<Rightarrow> int \<Rightarrow> string" where
  "zero_pad width i = (let s = str_int i in replicate (width - length s) CHR ''0'' @ s)"

definition strftime :: "int \<Rightarrow> string" where
  "strftime t =
     (let secs = t div 1000000;
          sod = secs mod 86400;
          (y, m, d) = civil_from_days (secs div 86400)
      in zero_pad 4 y @ zero_pad 2 m @ zero_pad 2 d @ ''_'' @
         zero_pad 2 (sod div 3600) @ zero_pad 2 (sod mod 3600 div 60) @ zero_pad 2 (sod mod 60))"

section \<open>The store, the effects and the environment\<close>

text \<open>
  A document of the collection \<^verbatim>\<open>crashes\<close>, keyed by its \<^verbatim>\<open>_id\<close> (the peer's ip),
  with the five fields that the upsert of line 200 writes; a document of
  \<^verbatim>\<open>crash_history\<close> is a copy with \<^verbatim>\<open>recovered_at\<close> added (lines 182 to 186).
\<close>

record incident =
  status :: string
  target_name :: string
  down_since :: int
  last_alert_sent_at :: "int option"
  witnesses :: "string list"

record archived = incident +
  recovered_at :: int

datatype level = INFO | WARNING | ERROR

text \<open>One constructor for each logging call of the source, with the call's arguments.\<close>

datatype logmsg =
    MongoConnected
  | DBConnectFail string
  | MonitoringStarted string "string list"
  | WaitingForDB
  | InternetDown
  | IsolationDetected string
  | StillIsolated
  | ConnectionRestored
  | FailedCheckRetrying string string
  | RecoveredOnRetry string nat
  | RecoveryDetected string int
  | BlipResolved string
  | SendingAlert string int
  | ErrorProcessing string string

datatype store_op = FindOne string | DeleteOne string | InsertOne string | UpdateOne string

text \<open>
  What the monitor does to the outside, in order: an HTTP GET of a url, a sleep of so
  many seconds, an operation sent to the store, a call of \<^verbatim>\<open>send_slack_alert\<close> with
  its message (the delivery to the webhooks is the notifier's business), a log line.
\<close>

datatype event =
    Get string
  | Sleep nat
  | Store store_op
  | Alert string
  | Log level logmsg

text \<open>
  What \<^verbatim>\<open>client.get\<close> does: it raises (a network error, a timeout) or returns a
  response, of which the source reads the status code only.
\<close>

datatype http_error = NetworkError | Timeout

type_synonym http_outcome = "http_error + int"

text \<open>
  The environment answers the monitor's questions: the outcome of the k-th GET of the
  external endpoint, of the k-th GET of a peer's health url, the k-th reading of the
  clock, whether the k-th store operation raises (and the exception's text), and
  whether connecting at startup raises.
\<close>

record env =
  internet :: "nat \<Rightarrow> http_outcome"
  peer_http :: "nat \<Rightarrow> string \<Rightarrow> http_outcome"
  clock :: "nat \<Rightarrow> int"
  store_fault :: "nat \<Rightarrow> string option"
  connect_fault :: "string option"

text \<open>
  The state: the two collections of the database, whether the global
  \<^verbatim>\<open>active_collection\<close> is set (\<open>db_handle\<close>), the events so far, and how many
  answers of each kind the environment has given.
\<close>

record world =
  crashes :: "string \<rightharpoonup> incident"
  crash_history :: "string \<rightharpoonup> archived"
  db_handle :: bool
  trace :: "event list"
  net_calls :: nat
  ping_calls :: nat
  clock_calls :: nat
  store_calls :: nat

definition emit :: "event \<Rightarrow> world \<Rightarrow> world" where
  "emit e w = w\<lparr>trace := trace w @ [e]\<rparr>"

definition sleep :: "nat \<Rightarrow> world \<Rightarrow> world" where
  "sleep secs w = emit (Sleep secs) w"

definition logger :: "level \<Rightarrow> logmsg \<Rightarrow> world \<Rightarrow> world" where
  "logger lvl m w = emit (Log lvl m) w"

definition send_slack_alert :: "string \<Rightarrow> world \<Rightarrow> world" where
  "send_slack_alert message w = emit (Alert message) w"

definition now :: "env \<Rightarrow> world \<Rightarrow> int \<times> world" where
  "now e w = (clock e (clock_calls w), w\<lparr>clock_calls := Suc (clock_calls w)\<rparr>)"

definition alerts :: "world \<Rightarrow> string list" where
  "alerts w = [m. Alert m \<leftarrow> trace w]"

section \<open>The prober\<close>

text \<open>
  Lines 70 to 85. The body of the \<^verbatim>\<open>try\<close> raises what \<^verbatim>\<open>client.get\<close> raises, or
  returns \<^verbatim>\<open>resp.status_code == 200\<close>; the bare \<^verbatim>\<open>except\<close> turns every exception into
  \<^verbatim>\<open>False\<close>. The result type keeps the exception, so that "never raises" is a
  statement about the function and not about its type.
\<close>

definition status_is_200 :: "http_outcome \<Rightarrow> http_error + bool" where
  "status_is_200 got = (case got of Inl exn \<Rightarrow> Inl exn | Inr status_code \<Rightarrow> Inr (status_code = 200))"

definition except_return_False :: "http_error + bool \<Rightarrow> http_error + bool" where
  "except_return_False body = (case body of Inl exn \<Rightarrow> Inr False | Inr b \<Rightarrow> Inr b)"

definition check_external_connectivity :: "env \<Rightarrow> world \<Rightarrow> (http_error + bool) \<times> world" where
  "check_external_connectivity e w =
     (except_return_False (status_is_200 (internet e (net_calls w))),
      emit (Get GOOGLE_HEALTH_CHECK_URL) (w\<lparr>net_calls := Suc (net_calls w)\<rparr>))"

definition ping_peer :: "env \<Rightarrow> string \<Rightarrow> world \<Rightarrow> (http_error + bool) \<times> world" where
  "ping_peer e target_url w =
     (except_return_False (status_is_200 (peer_http e (ping_calls w) target_url)),
      emit (Get target_url) (w\<lparr>ping_calls := Suc (ping_calls w)\<rparr>))"

section \<open>The store operations\<close>

text \<open>
  Every operation on a collection is one call to the store: it is recorded, and it
  raises when the environment says so (a \<^verbatim>\<open>PyMongoError\<close>, carried as the text that
  \<^verbatim>\<open>{e}\<close> prints), leaving the collections as they were. The functions are called
  below the guard of line 97 only, where the collections are set.
\<close>

definition store_call :: "env \<Rightarrow> store_op \<Rightarrow> world \<Rightarrow> string option \<times> world" where
  "store_call e op w =
     (store_fault e (store_calls w), emit (Store op) (w\<lparr>store_calls := Suc (store_calls w)\<rparr>))"

text \<open>\<^verbatim>\<open>active_collection.find_one({"_id": target_ip})\<close>\<close>

definition find_one :: "env \<Rightarrow> string \<Rightarrow> world \<Rightarrow> (string + incident option) \<times> world" where
  "find_one e k w =
     (case store_call e (FindOne k) w of
        (Some exn, w') \<Rightarrow> (Inl exn, w')
      | (None, w') \<Rightarrow> (Inr (crashes w' k), w'))"

text \<open>\<^verbatim>\<open>active_collection.delete_one({"_id": target_ip})\<close>\<close>

definition delete_one :: "env \<Rightarrow> string \<Rightarrow> world \<Rightarrow> string option \<times> world" where
  "delete_one e k w =
     (case store_call e (DeleteOne k) w of
        (Some exn, w') \<Rightarrow> (Some exn, w')
      | (None, w') \<Rightarrow> (None, w'\<lparr>crashes := (crashes w')(k := None)\<rparr>))"

text \<open>
  \<^verbatim>\<open>history_collection.insert_one(archive_record)\<close>, the key being the record's
  \<^verbatim>\<open>_id\<close>: an insert under a key that is taken raises.
\<close>

definition insert_one :: "env \<Rightarrow> string \<Rightarrow> archived \<Rightarrow> world \<Rightarrow> string option \<times> world" where
  "insert_one e k doc w =
     (case store_call e (InsertOne k) w of
        (Some exn, w') \<Rightarrow> (Some exn, w')
      | (None, w') \<Rightarrow>
          (if crash_history w' k \<noteq> None then (Some ''DuplicateKeyError'', w')
           else (None, w'\<lparr>crash_history := (crash_history w')(k \<mapsto> doc)\<rparr>)))"

text \<open>
  The upsert of lines 200 to 211: \<^verbatim>\<open>$set\<close> writes status and target_name,
  \<^verbatim>\<open>$setOnInsert\<close> writes down_since and last_alert_sent_at into a document that the
  operation creates, \<^verbatim>\<open>$addToSet\<close> appends the witness unless the array has it.
\<close>

definition add_to_set :: "string \<Rightarrow> string list \<Rightarrow> string list" where
  "add_to_set x xs = (if x \<in> set xs then xs else xs @ [x])"

definition upserted :: "incident option \<Rightarrow> string \<Rightarrow> string \<Rightarrow> int \<Rightarrow> incident" where
  "upserted old tname witness current_time =
     (case old of
        None \<Rightarrow> \<lparr>status = ''down'', target_name = tname, down_since = current_time,
                  last_alert_sent_at = None, witnesses = [witness]\<rparr>
      | Some doc \<Rightarrow> doc\<lparr>status := ''down'', target_name := tname,
                        witnesses := add_to_set witness (witnesses doc)\<rparr>)"

definition update_one_upsert ::
  "env \<Rightarrow> string \<Rightarrow> string \<Rightarrow> string \<Rightarrow> int \<Rightarrow> world \<Rightarrow> string option \<times> world" where
  "update_one_upsert e k tname witness current_time w =
     (case store_call e (UpdateOne k) w of
        (Some exn, w') \<Rightarrow> (Some exn, w')
      | (None, w') \<Rightarrow>
          (None, w'\<lparr>crashes := (crashes w')(k \<mapsto> upserted (crashes w' k) tname witness current_time)\<rparr>))"

text \<open>
  The update of lines 239 to 242, without upsert: it changes the document if there is
  one.
\<close>

definition update_one_last_alert :: "env \<Rightarrow> string \<Rightarrow> int \<Rightarrow> world \<Rightarrow> string option \<times> world" where
  "update_one_last_alert e k current_time w =
     (case store_call e (UpdateOne k) w of
        (Some exn, w') \<Rightarrow> (Some exn, w')
      | (None, w') \<Rightarrow>
          (None,
           (case crashes w' k of
              None \<Rightarrow> w'
            | Some doc \<Rightarrow>
                w'\<lparr>crashes := (crashes w')(k \<mapsto> doc\<lparr>last_alert_sent_at := Some current_time\<rparr>)\<rparr>)))"

section \<open>The messages\<close>

definition newline :: string where
  "newline = [CHR 0x0A]"

definition isolation_message :: "config \<Rightarrow> string" where
  "isolation_message cfg =
     ''*MONITOR ISOLATED:* *'' @ MY_SERVER_ID cfg @ ''* cannot reach ANY peers.'' @ newline @
     ''Please verify manually.''"

definition reconnected_message :: "config \<Rightarrow> string" where
  "reconnected_message cfg =
     '' *MONITOR RECONNECTED:* *'' @ MY_SERVER_ID cfg @ ''* has rejoined the mesh.''"

definition recovery_message :: "string \<Rightarrow> string \<Rightarrow> int \<Rightarrow> string" where
  "recovery_message tname tip duration_mins =
     '' *RECOVERY:* Server *'' @ tname @ ''* ('' @ tip @ '') is back online.'' @ newline @
     '' Was down for: '' @ str_int duration_mins @ '' mins''"

definition crash_message :: "string \<Rightarrow> string \<Rightarrow> int \<Rightarrow> string list \<Rightarrow> string" where
  "crash_message tname tip mins ws =
     '' *CRASH ALERT:* *'' @ tname @ ''* ('' @ tip @ '') is DOWN.'' @ newline @
     '' Down for: '' @ str_int mins @ '' mins'' @ newline @
     '' Confirmed by: '' @ join '', '' ws"

definition reminder_marker :: string where
  "reminder_marker = '' *REMINDER:* ''"

definition health_url :: "config \<Rightarrow> string \<Rightarrow> string" where
  "health_url cfg tip = ''http://'' @ tip @ '':'' @ str_int (HEALTH_PORT cfg) @ ''/health''"

definition archive_key :: "string \<Rightarrow> int \<Rightarrow> string" where
  "archive_key tip recovered = tip @ ''_'' @ strftime recovered"

section \<open>The monitor loop\<close>

text \<open>
  The scan of lines 108 to 117: every target is probed once, in order; the result is
  stored under the target's ip and the successes are counted.
\<close>

fun scan ::
  "config \<Rightarrow> env \<Rightarrow> target list \<Rightarrow> nat \<Rightarrow> (string \<rightharpoonup> bool) \<Rightarrow> world \<Rightarrow>
   nat \<times> (string \<rightharpoonup> bool) \<times> world" where
  "scan cfg e [] successful_pings_count peer_results w =
     (successful_pings_count, peer_results, w)"
| "scan cfg e (t # ts) successful_pings_count peer_results w =
     (case ping_peer e (health_url cfg (ip t)) w of
        (r, w') \<Rightarrow>
          scan cfg e ts
            (if r = Inr True then Suc successful_pings_count else successful_pings_count)
            (peer_results(ip t \<mapsto> (r = Inr True))) w')"

text \<open>
  The retry loop of lines 161 to 167, \<^verbatim>\<open>for attempt in range(MAX_RETRIES)\<close>: from
  \<open>attempt\<close> on, it returns whether a retry succeeded.
\<close>

function retry :: "config \<Rightarrow> env \<Rightarrow> target \<Rightarrow> nat \<Rightarrow> world \<Rightarrow> bool \<times> world" where
  "retry cfg e t attempt w =
     (if attempt < MAX_RETRIES then
        (case ping_peer e (health_url cfg (ip t)) (sleep INITIAL_BACKOFF_SECONDS w) of
           (r, w') \<Rightarrow>
             if r = Inr True then (True, logger INFO (RecoveredOnRetry (name t) (attempt + 1)) w')
             else retry cfg e t (Suc attempt) w')
      else (False, w))"
  by pat_completeness auto
termination
  by (relation "measure (\<lambda>(cfg, e, t, attempt, w). MAX_RETRIES - attempt)") auto

declare retry.simps [simp del]

text \<open>
  Lines 152 to 167. The result is \<open>None\<close> where the source says \<^verbatim>\<open>continue\<close> (the
  connectivity check failed), and the value of \<^verbatim>\<open>is_alive\<close> otherwise.
\<close>

definition confirm :: "config \<Rightarrow> env \<Rightarrow> target \<Rightarrow> bool \<Rightarrow> world \<Rightarrow> bool option \<times> world" where
  "confirm cfg e t is_alive w =
     (if \<not> is_alive then
        (case check_external_connectivity e w of
           (r, w1) \<Rightarrow>
             if r \<noteq> Inr True then (None, w1)
             else (case retry cfg e t 0 (logger INFO (FailedCheckRetrying (name t) (ip t)) w1) of
                     (alive, w2) \<Rightarrow> (Some alive, w2)))
      else (Some True, w))"

text \<open>
  The body of the \<^verbatim>\<open>try\<close>, lines 170 to 243. Its result is the exception that it
  raised, if any, with the state at that moment.

  The recovery branch, lines 172 to 194.
\<close>

definition archive_record :: "incident \<Rightarrow> int \<Rightarrow> archived" where
  "archive_record crash_record recovered =
     \<lparr>status = ''resolved'', target_name = target_name crash_record,
      down_since = down_since crash_record,
      last_alert_sent_at = last_alert_sent_at crash_record,
      witnesses = witnesses crash_record, recovered_at = recovered\<rparr>"

definition recovery_logic :: "config \<Rightarrow> env \<Rightarrow> target \<Rightarrow> world \<Rightarrow> string option \<times> world" where
  "recovery_logic cfg e t w =
     (case find_one e (ip t) w of
        (Inl exn, w1) \<Rightarrow> (Some exn, w1)
      | (Inr None, w1) \<Rightarrow> (None, w1)
      | (Inr (Some crash_record), w1) \<Rightarrow>
          (case now e w1 of
             (recovered, w2) \<Rightarrow>
               let duration_mins = whole_minutes (recovered - down_since crash_record) in
               (case delete_one e (ip t) w2 of
                  (Some exn, w3) \<Rightarrow> (Some exn, w3)
                | (None, w3) \<Rightarrow>
                    if duration_mins \<ge> 1 then
                      (case insert_one e (archive_key (ip t) recovered)
                              (archive_record crash_record recovered) w3 of
                         (Some exn, w4) \<Rightarrow> (Some exn, w4)
                       | (None, w4) \<Rightarrow>
                           (None,
                            send_slack_alert (recovery_message (name t) (ip t) duration_mins)
                              (logger INFO (RecoveryDetected (name t) duration_mins) w4)))
                    else (None, logger INFO (BlipResolved (name t)) w3))))"

text \<open>The crash branch, lines 198 to 243.\<close>

definition should_alert :: "int \<Rightarrow> int option \<Rightarrow> bool" where
  "should_alert current_time last_alert =
     (case last_alert of
        None \<Rightarrow> True
      | Some sent \<Rightarrow> current_time - sent > REMINDER_INTERVAL_HOURS * hour)"

definition alert_message :: "target \<Rightarrow> int \<Rightarrow> incident \<Rightarrow> string" where
  "alert_message t current_time crash_doc =
     (let msg = crash_message (name t) (ip t)
                  (whole_minutes (current_time - down_since crash_doc)) (witnesses crash_doc)
      in if last_alert_sent_at crash_doc \<noteq> None then reminder_marker @ msg else msg)"

definition crash_logic :: "config \<Rightarrow> env \<Rightarrow> target \<Rightarrow> world \<Rightarrow> string option \<times> world" where
  "crash_logic cfg e t w =
     (case now e w of
        (current_time, w0) \<Rightarrow>
          (case update_one_upsert e (ip t) (name t) (MY_SERVER_ID cfg) current_time w0 of
             (Some exn, w1) \<Rightarrow> (Some exn, w1)
           | (None, w1) \<Rightarrow>
               (case find_one e (ip t) w1 of
                  (Inl exn, w2) \<Rightarrow> (Some exn, w2)
                | (Inr None, w2) \<Rightarrow> (None, w2)
                | (Inr (Some crash_doc), w2) \<Rightarrow>
                    if current_time - down_since crash_doc \<ge> CONFIRMATION_DELAY_MINUTES * minute
                    then
                      if should_alert current_time (last_alert_sent_at crash_doc) then
                        (case update_one_last_alert e (ip t) current_time
                                (logger WARNING
                                   (SendingAlert (name t)
                                      (whole_minutes (current_time - down_since crash_doc))) w2) of
                           (Some exn, w3) \<Rightarrow> (Some exn, w3)
                         | (None, w3) \<Rightarrow>
                             (None, send_slack_alert (alert_message t current_time crash_doc) w3))
                      else (None, w2)
                    else (None, w2))))"

text \<open>
  One target of the loop of line 147: the confirmation, then the \<^verbatim>\<open>try\<close> with its
  \<^verbatim>\<open>except Exception\<close>, which logs the exception and goes on.
\<close>

definition except_log :: "target \<Rightarrow> string option \<times> world \<Rightarrow> world" where
  "except_log t body =
     (case body of
        (None, w) \<Rightarrow> w
      | (Some exn, w) \<Rightarrow> logger ERROR (ErrorProcessing (name t) exn) w)"

definition process_target ::
  "config \<Rightarrow> env \<Rightarrow> (string \<rightharpoonup> bool) \<Rightarrow> target \<Rightarrow> world \<Rightarrow> world" where
  "process_target cfg e peer_results t w =
     (case confirm cfg e t (case peer_results (ip t) of None \<Rightarrow> False | Some b \<Rightarrow> b) w of
        (None, w1) \<Rightarrow> w1
      | (Some is_alive, w1) \<Rightarrow>
          except_log t (if is_alive then recovery_logic cfg e t w1 else crash_logic cfg e t w1))"

fun process_targets ::
  "config \<Rightarrow> env \<Rightarrow> (string \<rightharpoonup> bool) \<Rightarrow> target list \<Rightarrow> world \<Rightarrow> world" where
  "process_targets cfg e peer_results [] w = w"
| "process_targets cfg e peer_results (t # ts) w =
     process_targets cfg e peer_results ts (process_target cfg e peer_results t w)"

text \<open>
  One iteration of \<^verbatim>\<open>while True\<close>, lines 96 to 248, on the local \<^verbatim>\<open>was_isolated\<close> and
  the state.
\<close>

definition is_isolated :: "config \<Rightarrow> nat \<Rightarrow> bool" where
  "is_isolated cfg successful_pings_count =
     (length (TARGETS cfg) > 0 \<and> successful_pings_count = 0)"

definition monitor_tick :: "config \<Rightarrow> env \<Rightarrow> bool \<times> world \<Rightarrow> bool \<times> world" where
  "monitor_tick cfg e s =
     (case s of
        (was_isolated, w) \<Rightarrow>
          if \<not> db_handle w then (was_isolated, sleep 30 (logger WARNING WaitingForDB w))
          else
            (case check_external_connectivity e w of
               (r, w1) \<Rightarrow>
                 if r \<noteq> Inr True then (was_isolated, sleep 30 (logger WARNING InternetDown w1))
                 else
                   (case scan cfg e (TARGETS cfg) 0 Map.empty w1 of
                      (successful_pings_count, peer_results, w2) \<Rightarrow>
                        if is_isolated cfg successful_pings_count \<and> \<not> was_isolated then
                          (True,
                           sleep 30
                             (send_slack_alert (isolation_message cfg)
                                (logger WARNING (IsolationDetected (MY_SERVER_ID cfg)) w2)))
                        else if is_isolated cfg successful_pings_count \<and> was_isolated then
                          (was_isolated, sleep 30 (logger INFO StillIsolated w2))
                        else if \<not> is_isolated cfg successful_pings_count \<and> was_isolated then
                          (False,
                           sleep 30
                             (process_targets cfg e peer_results (TARGETS cfg)
                                (send_slack_alert (reconnected_message cfg)
                                   (logger INFO ConnectionRestored w2))))
                        else
                          (was_isolated,
                           sleep 30 (process_targets cfg e peer_results (TARGETS cfg) w2)))))"

text \<open>
  The loop never returns; \<open>monitor_loop n\<close> is its first \<open>n\<close> iterations, and
  \<open>monitor_peers n\<close> the task of line 88 up to there.
\<close>

fun monitor_loop :: "config \<Rightarrow> env \<Rightarrow> nat \<Rightarrow> bool \<times> world \<Rightarrow> bool \<times> world" where
  "monitor_loop cfg e 0 s = s"
| "monitor_loop cfg e (Suc n) s = monitor_loop cfg e n (monitor_tick cfg e s)"

definition monitor_peers :: "config \<Rightarrow> env \<Rightarrow> nat \<Rightarrow> world \<Rightarrow> bool \<times> world" where
  "monitor_peers cfg e n w =
     monitor_loop cfg e n
       (False,
        logger INFO (MonitoringStarted (MY_SERVER_ID cfg) (map name (TARGETS cfg))) (sleep 5 w))"

text \<open>
  The startup of lines 252 to 265: the process starts with no collection set, connects
  once if a URI is configured, and starts the monitor task whatever came of it.
\<close>

definition process_start :: "(string \<rightharpoonup> incident) \<Rightarrow> (string \<rightharpoonup> archived) \<Rightarrow> world" where
  "process_start active hist =
     \<lparr>crashes = active, crash_history = hist, db_handle = False, trace = [],
      net_calls = 0, ping_calls = 0, clock_calls = 0, store_calls = 0\<rparr>"

definition lifespan :: "config \<Rightarrow> env \<Rightarrow> world \<Rightarrow> world" where
  "lifespan cfg e w =
     (if MONGO_URI cfg \<noteq> [] then
        (case connect_fault e of
           None \<Rightarrow> (logger INFO MongoConnected w)\<lparr>db_handle := True\<rparr>
         | Some exn \<Rightarrow> logger ERROR (DBConnectFail exn) w)
      else w)"

text \<open>
  The same "down" outcome processed on \<open>n\<close> consecutive ticks for one peer: the crash
  branch run \<open>n\<close> times, an exception ending the peer's turn in its tick as the
  \<^verbatim>\<open>except\<close> of line 245 does.
\<close>

fun down_ticks :: "config \<Rightarrow> env \<Rightarrow> target \<Rightarrow> nat \<Rightarrow> world \<Rightarrow> world" where
  "down_ticks cfg e t 0 w = w"
| "down_ticks cfg e t (Suc n) w = down_ticks cfg e t n (except_log t (crash_logic cfg e t w))"

text \<open>When the crash branch sends: lines 222 to 229 as one condition.\<close>

definition alert_due :: "int \<Rightarrow> incident \<Rightarrow> bool" where
  "alert_due current_time doc =
     (current_time - down_since doc \<ge> CONFIRMATION_DELAY_MINUTES * minute
      \<and> should_alert current_time (last_alert_sent_at doc))"

text \<open>
  How many probes the retry loop makes, given which of the three would succeed: it
  stops at the first success.
\<close>

definition retry_attempts :: "bool \<Rightarrow> bool \<Rightarrow> bool \<Rightarrow> nat" where
  "retry_attempts p0 p1 p2 = (if p0 then 1 else if p1 then 2 else 3)"

section \<open>Scenarios\<close>

text \<open>
  Concrete configurations, environments and states, on which the theorems below are
  instantiated: a mesh of three nodes seen from \<open>node-a\<close>, an open incident for
  \<open>node-b\<close>, environments given by their four answer functions, clocks that advance
  by a fixed step at every reading, and a running process with its collections set.
\<close>

definition node_b :: target where
  "node_b = \<lparr>ip = ''10.0.0.2'', name = ''node-b''\<rparr>"

definition node_c :: target where
  "node_c = \<lparr>ip = ''10.0.0.3'', name = ''node-c''\<rparr>"

definition mesh :: config where
  "mesh = \<lparr>HEALTH_PORT = 8051, MONGO_URI = ''mongodb://store'', MY_SERVER_ID = ''node-a'',
           TARGETS = [node_b, node_c]\<rparr>"

definition t0 :: int where
  "t0 = 1700000000000000"

definition incident_b :: incident where
  "incident_b = \<lparr>status = ''down'', target_name = ''node-b'', down_since = t0,
                 last_alert_sent_at = None, witnesses = [''node-c'']\<rparr>"

definition scenario ::
  "(nat \<Rightarrow> http_outcome) \<Rightarrow> (nat \<Rightarrow> string \<Rightarrow> http_outcome) \<Rightarrow> (nat \<Rightarrow> int) \<Rightarrow>
   (nat \<Rightarrow> string option) \<Rightarrow> env" where
  "scenario net peers clk faults =
     \<lparr>internet = net, peer_http = peers, clock = clk, store_fault = faults, connect_fault = None\<rparr>"

definition every :: "int \<Rightarrow> int \<Rightarrow> nat \<Rightarrow> int" where
  "every step start k = start + int k * step"

definition calm :: "(nat \<Rightarrow> int) \<Rightarrow> env" where
  "calm clk = scenario (\<lambda>k. Inr 200) (\<lambda>k url. Inl Timeout) clk (\<lambda>k. None)"

definition running :: "(string \<rightharpoonup> incident) \<Rightarrow> world" where
  "running active = (process_start active Map.empty)\<lparr>db_handle := True\<rparr>"

text \<open>
  The peers answer on the second scan of two targets only: isolated, reconnected,
  isolated again.
\<close>

definition flapping :: env where
  "flapping = scenario (\<lambda>k. Inr 200) (\<lambda>k url. if 2 \<le> k \<and> k < 4 then Inr 200 else Inl Timeout)
                (every minute t0) (\<lambda>k. None)"

text \<open>
  The store cannot be reached when the process starts, and answers every operation
  from then on; the internet and the peers answer too.
\<close>

definition outage :: env where
  "outage = \<lparr>internet = (\<lambda>k. Inr 200), peer_http = (\<lambda>k url. Inr 200), clock = every minute t0,
             store_fault = (\<lambda>k. None), connect_fault = Some ''ServerSelectionTimeoutError''\<rparr>"

section \<open>Properties of the prober\<close>

text \<open>
  C9: \<^verbatim>\<open>check_external_connectivity\<close> and \<^verbatim>\<open>ping_peer\<close> return, and never raise:
  \<^verbatim>\<open>True\<close> when the GET returned a response with status 200, \<^verbatim>\<open>False\<close> for every
  network error, timeout and every other status.
\<close>

theorem prober_contract:
  "fst (check_external_connectivity e w) = Inr (internet e (net_calls w) = Inr 200) \<and>
   fst (ping_peer e url w) = Inr (peer_http e (ping_calls w) url = Inr 200)"
  by (auto simp: check_external_connectivity_def ping_peer_def except_return_False_def
      status_is_200_def split: sum.splits)

section \<open>Unfolding the effects\<close>

lemmas prims = emit_def sleep_def logger_def send_slack_alert_def now_def store_call_def alerts_def

lemmas store_defs = find_one_def delete_one_def insert_one_def update_one_upsert_def
  update_one_last_alert_def

lemmas scenarios_at_t0 = node_b_def node_c_def mesh_def t0_def incident_b_def scenario_def every_def calm_def
  running_def process_start_def

lemmas scenarios = node_b_def node_c_def mesh_def incident_b_def scenario_def every_def calm_def
  running_def process_start_def

lemma str_int_8051: "str_int 8051 = ''8051''"
  by (simp add: str_int_def str_nat.simps digit_char_def)

lemma url_examples:
  "health_url mesh ''10.0.0.2'' = ''http://10.0.0.2:8051/health''"
  "health_url mesh ''10.0.0.3'' = ''http://10.0.0.3:8051/health''"
  by (simp_all add: health_url_def mesh_def str_int_8051)

lemma node_simps:
  "ip node_b = ''10.0.0.2''" "name node_b = ''node-b''"
  "ip node_c = ''10.0.0.3''" "name node_c = ''node-c''"
  by (simp_all add: node_b_def node_c_def)

lemma mesh_simps:
  "TARGETS mesh = [node_b, node_c]" "MY_SERVER_ID mesh = ''node-a''" "MONGO_URI mesh = ''mongodb://store''"
  by (simp_all add: mesh_def)

lemma strftime_example_90: "strftime (t0 + 90000000) = ''20231114_221450''"
  by code_simp

lemma strftime_example_150: "strftime (t0 + 150000000) = ''20231114_221550''"
  by code_simp

lemma key_example: "archive_key ''10.0.0.2'' (t0 + 90000000) = ''10.0.0.2_20231114_221450''"
  by code_simp

lemma whole_minutes_ge_1: "(1 \<le> whole_minutes d) = (minute \<le> d)"
  by (auto simp: whole_minutes_def minute_def)

lemma add_to_set_idem: "add_to_set x (add_to_set x xs) = add_to_set x xs"
  by (simp add: add_to_set_def)

section \<open>The crash branch\<close>

lemma quiet_tick:
  assumes "crashes w (ip t) = Some r"
    and "\<not> alert_due (clock e (clock_calls w)) r"
  shows "\<exists>r'. crashes (except_log t (crash_logic cfg e t w)) (ip t) = Some r'
           \<and> down_since r' = down_since r
           \<and> last_alert_sent_at r' = last_alert_sent_at r
           \<and> add_to_set (MY_SERVER_ID cfg) (witnesses r') = add_to_set (MY_SERVER_ID cfg) (witnesses r)"
    and "alerts (except_log t (crash_logic cfg e t w)) = alerts w"
    and "clock_calls (except_log t (crash_logic cfg e t w)) = Suc (clock_calls w)"
  using assms
  by (auto simp: crash_logic_def except_log_def prims store_defs upserted_def alert_due_def add_to_set_idem
      split: option.splits prod.splits sum.splits)

lemma quiet_ticks:
  assumes "crashes w (ip t) = Some r"
    and "\<forall>i<n. \<not> alert_due (clock e (clock_calls w + i)) r"
  shows "(\<exists>r'. crashes (down_ticks cfg e t n w) (ip t) = Some r'
           \<and> down_since r' = down_since r
           \<and> last_alert_sent_at r' = last_alert_sent_at r
           \<and> add_to_set (MY_SERVER_ID cfg) (witnesses r') = add_to_set (MY_SERVER_ID cfg) (witnesses r))
    \<and> alerts (down_ticks cfg e t n w) = alerts w
    \<and> clock_calls (down_ticks cfg e t n w) = clock_calls w + n"
  using assms
proof (induction n arbitrary: w r)
  case 0
  then show ?case by simp
next
  case (Suc n)
  let ?w1 = "except_log t (crash_logic cfg e t w)"
  from Suc.prems have q: "\<not> alert_due (clock e (clock_calls w)) r"
    by (metis add.right_neutral zero_less_Suc)
  from quiet_tick(1)[OF Suc.prems(1) q, of cfg] obtain r1 where
    r1: "crashes ?w1 (ip t) = Some r1" "down_since r1 = down_since r"
      "last_alert_sent_at r1 = last_alert_sent_at r"
      "add_to_set (MY_SERVER_ID cfg) (witnesses r1) = add_to_set (MY_SERVER_ID cfg) (witnesses r)"
    by blast
  have a1: "alerts ?w1 = alerts w" and c1: "clock_calls ?w1 = Suc (clock_calls w)"
    using quiet_tick(2,3)[OF Suc.prems(1) q] by auto
  have due_eq: "\<And>c. alert_due c r1 = alert_due c r"
    by (simp add: alert_due_def r1)
  have "\<forall>i<n. \<not> alert_due (clock e (clock_calls ?w1 + i)) r1"
    using Suc.prems(2) by (auto simp: c1 due_eq)
  from Suc.IH[OF r1(1) this] show ?case
    by (simp add: r1 a1 c1)
qed

lemma due_tick:
  assumes "\<forall>k. store_fault e k = None"
    and "crashes w (ip t) = Some r"
    and "alert_due (clock e (clock_calls w)) r"
  shows "alerts (except_log t (crash_logic cfg e t w)) =
           alerts w @ [alert_message t (clock e (clock_calls w))
                         (upserted (Some r) (name t) (MY_SERVER_ID cfg) (clock e (clock_calls w)))]"
  using assms
  by (auto simp: crash_logic_def except_log_def prims store_defs upserted_def alert_due_def
      split: option.splits prod.splits sum.splits)

lemma down_ticks_Suc: "down_ticks cfg e t (Suc n) w = except_log t (crash_logic cfg e t (down_ticks cfg e t n w))"
  by (induction n arbitrary: w) simp_all

lemma keeps_down_since:
  assumes "crashes w (ip t) = Some r"
  shows "\<exists>r'. crashes (except_log t (crash_logic cfg e t w)) (ip t) = Some r' \<and> down_since r' = down_since r"
  using assms
  by (auto simp: crash_logic_def except_log_def prims store_defs upserted_def 
      split: option.splits prod.splits sum.splits)

text \<open>
  C2: a "down" outcome processed for a peer that has an incident record leaves the
  record in place with its \<open>down_since\<close>, on every later tick and whatever the store
  does; the upsert writes \<open>down_since\<close> and the null \<open>last_alert_sent_at\<close> into the
  document that it creates, and into no other.
\<close>

theorem down_since_immutable:
  assumes "crashes w (ip t) = Some r"
  shows "(\<exists>r'. crashes (down_ticks cfg e t n w) (ip t) = Some r' \<and> down_since r' = down_since r)
    \<and> down_since (upserted (Some r) tname sid c) = down_since r
    \<and> last_alert_sent_at (upserted (Some r) tname sid c) = last_alert_sent_at r
    \<and> down_since (upserted None tname sid c) = c
    \<and> last_alert_sent_at (upserted None tname sid c) = None"
proof -
  have "\<exists>r'. crashes (down_ticks cfg e t n w) (ip t) = Some r' \<and> down_since r' = down_since r"
    using assms
  proof (induction n arbitrary: w r)
    case 0
    then show ?case by simp
  next
    case (Suc n)
    from keeps_down_since[OF Suc.prems, of cfg e] obtain r1 where
      "crashes (except_log t (crash_logic cfg e t w)) (ip t) = Some r1" "down_since r1 = down_since r"
      by blast
    with Suc.IH[of "except_log t (crash_logic cfg e t w)" r1] show ?case by simp
  qed
  then show ?thesis by (simp add: upserted_def)
qed

theorem down_since_immutable_witness:
  "(\<exists>r'. crashes (down_ticks mesh (calm (every minute t0)) node_b 5 (running [''10.0.0.2'' \<mapsto> incident_b])) ''10.0.0.2'' = Some r'
        \<and> down_since r' = t0)
   \<and> down_since (upserted (Some incident_b) ''node-b'' ''node-a'' (t0 + 7)) = t0
   \<and> last_alert_sent_at (upserted (Some incident_b) ''node-b'' ''node-a'' (t0 + 7)) = None
   \<and> down_since (upserted None ''node-b'' ''node-a'' (t0 + 7)) = t0 + 7
   \<and> last_alert_sent_at (upserted None ''node-b'' ''node-a'' (t0 + 7)) = None"
  using down_since_immutable[of "running [''10.0.0.2'' \<mapsto> incident_b]" node_b incident_b
      mesh "calm (every minute t0)" 5 "''node-b''" "''node-a''" "t0 + 7"]
  by (simp add: scenarios_at_t0)

text \<open>
  C3: while the time down is below three minutes, consecutive down-ticks send no
  alert; the first tick that reads a time down of three minutes or more, with no alert
  sent so far and the store answering, sends exactly one: the crash alert, with the
  peer's name and ip, the whole minutes and the witnesses of the record.
\<close>

theorem crash_alert_after_confirmation_delay:
  assumes "crashes w (ip t) = Some r"
    and "\<forall>i<n. clock e (clock_calls w + i) - down_since r < CONFIRMATION_DELAY_MINUTES * minute"
  shows "alerts (down_ticks cfg e t n w) = alerts w \<and>
    ((\<forall>k. store_fault e k = None) \<and> last_alert_sent_at r = None \<and>
     CONFIRMATION_DELAY_MINUTES * minute \<le> clock e (clock_calls w + n) - down_since r \<longrightarrow>
     alerts (down_ticks cfg e t (Suc n) w) =
       alerts w @ [crash_message (name t) (ip t)
                     (whole_minutes (clock e (clock_calls w + n) - down_since r))
                     (add_to_set (MY_SERVER_ID cfg) (witnesses r))])"
proof -
  let ?w = "down_ticks cfg e t n w"
  have quiet: "\<forall>i<n. \<not> alert_due (clock e (clock_calls w + i)) r"
    using assms(2) by (auto simp: alert_due_def)
  from quiet_ticks[OF assms(1) quiet, of cfg] obtain r' where
    r': "crashes ?w (ip t) = Some r'" "down_since r' = down_since r"
      "last_alert_sent_at r' = last_alert_sent_at r"
      "add_to_set (MY_SERVER_ID cfg) (witnesses r') = add_to_set (MY_SERVER_ID cfg) (witnesses r)"
    and a: "alerts ?w = alerts w" and c: "clock_calls ?w = clock_calls w + n"
    by blast
  have "alerts (down_ticks cfg e t (Suc n) w) =
       alerts w @ [crash_message (name t) (ip t)
                     (whole_minutes (clock e (clock_calls w + n) - down_since r))
                     (add_to_set (MY_SERVER_ID cfg) (witnesses r))]"
    if nf: "\<forall>k. store_fault e k = None" and la: "last_alert_sent_at r = None"
      and due: "CONFIRMATION_DELAY_MINUTES * minute \<le> clock e (clock_calls w + n) - down_since r"
  proof -
    have "alert_due (clock e (clock_calls ?w)) r'"
      using la due by (simp add: alert_due_def should_alert_def r' c)
    from due_tick[OF nf r'(1) this, of cfg] show ?thesis
      by (simp add: down_ticks_Suc a c alert_message_def upserted_def r' la del: down_ticks.simps)
  qed
  with a show ?thesis by blast
qed

theorem crash_alert_after_confirmation_delay_witness:
  "alerts (down_ticks mesh (calm (every minute t0)) node_b 3 (running [''10.0.0.2'' \<mapsto> incident_b])) = [] \<and>
   alerts (down_ticks mesh (calm (every minute t0)) node_b 4 (running [''10.0.0.2'' \<mapsto> incident_b])) =
     ['' *CRASH ALERT:* *node-b* (10.0.0.2) is DOWN.'' @ newline @ '' Down for: 3 mins'' @ newline @
      '' Confirmed by: node-c, node-a'']"
  using crash_alert_after_confirmation_delay[of "running [''10.0.0.2'' \<mapsto> incident_b]" node_b
      incident_b 3 "calm (every minute t0)" mesh]
  by (simp add: scenarios_at_t0 alerts_def CONFIRMATION_DELAY_MINUTES_def minute_def crash_message_def
      whole_minutes_def add_to_set_def str_int_def str_nat.simps digit_char_def)

text \<open>
  The invariant that C4 rests on: the crash branch writes \<open>last_alert_sent_at\<close> only
  at a time that is beyond \<open>down_since\<close> by the confirmation delay, so a record that a
  down-tick creates or finds within the invariant stays within it.
\<close>

lemma last_alert_after_down_since:
  assumes "\<forall>r T. crashes w (ip t) = Some r \<and> last_alert_sent_at r = Some T \<longrightarrow>
             down_since r + CONFIRMATION_DELAY_MINUTES * minute \<le> T"
    and "crashes (except_log t (crash_logic cfg e t w)) (ip t) = Some r'"
    and "last_alert_sent_at r' = Some T'"
  shows "down_since r' + CONFIRMATION_DELAY_MINUTES * minute \<le> T'"
  using assms
  by (auto simp: crash_logic_def except_log_def prims store_defs upserted_def
      split: option.splits prod.splits sum.splits if_splits)



section \<open>The recovery branch\<close>

text \<open>
  C5: for a peer observed alive that has an incident record, with the store
  answering: the record is deleted. When it was down for a minute or more, a document
  is archived under the key made of the ip, an underscore and the time of recovery as
  \<^verbatim>\<open>YYYYmmdd_HHMMSS\<close> (the key being free); it is the incident field by field, with
  the status resolved and \<open>recovered_at\<close> added; and exactly one recovery alert
  is sent, with the peer's name, its ip and the whole minutes. Below a minute nothing
  is archived and nothing is sent.
\<close>

theorem recovery_resolves_incident:
  assumes "\<forall>k. store_fault e k = None"
    and "crashes w (ip t) = Some r"
    and "recovered = clock e (clock_calls w)"
    and "w' = except_log t (recovery_logic cfg e t w)"
  shows "crashes w' = (crashes w)(ip t := None) \<and>
    (if minute \<le> recovered - down_since r then
       (crash_history w (ip t @ ''_'' @ strftime recovered) = None \<longrightarrow>
          crash_history w' =
            (crash_history w)(ip t @ ''_'' @ strftime recovered \<mapsto>
               \<lparr>status = ''resolved'', target_name = target_name r, down_since = down_since r,
                last_alert_sent_at = last_alert_sent_at r, witnesses = witnesses r,
                recovered_at = recovered\<rparr>) \<and>
          alerts w' = alerts w @
            ['' *RECOVERY:* Server *'' @ name t @ ''* ('' @ ip t @ '') is back online.'' @ [CHR 0x0A] @
             '' Was down for: '' @ str_int (whole_minutes (recovered - down_since r)) @ '' mins''])
     else crash_history w' = crash_history w \<and> alerts w' = alerts w)"
  using assms
  by (auto simp: recovery_logic_def except_log_def prims store_defs whole_minutes_ge_1
      archive_record_def archive_key_def recovery_message_def newline_def Let_def
      split: option.splits prod.splits sum.splits)

theorem recovery_resolves_incident_witness:
  "crashes (except_log node_b (recovery_logic mesh (calm (every minute (t0 + 90000000))) node_b
              (running [''10.0.0.2'' \<mapsto> incident_b]))) = Map.empty \<and>
   crash_history (except_log node_b (recovery_logic mesh (calm (every minute (t0 + 90000000))) node_b
              (running [''10.0.0.2'' \<mapsto> incident_b]))) =
     [''10.0.0.2_20231114_221450'' \<mapsto>
        \<lparr>status = ''resolved'', target_name = ''node-b'', down_since = t0,
         last_alert_sent_at = None, witnesses = [''node-c''], recovered_at = t0 + 90000000\<rparr>] \<and>
   alerts (except_log node_b (recovery_logic mesh (calm (every minute (t0 + 90000000))) node_b
              (running [''10.0.0.2'' \<mapsto> incident_b]))) =
     ['' *RECOVERY:* Server *node-b* (10.0.0.2) is back online.'' @ [CHR 0x0A] @
      '' Was down for: 1 mins''] \<and>
   crash_history (except_log node_b (recovery_logic mesh (calm (every minute (t0 + 150000000))) node_b
              (running [''10.0.0.2'' \<mapsto> incident_b]))) =
     [''10.0.0.2_20231114_221550'' \<mapsto>
        \<lparr>status = ''resolved'', target_name = ''node-b'', down_since = t0,
         last_alert_sent_at = None, witnesses = [''node-c''], recovered_at = t0 + 150000000\<rparr>] \<and>
   alerts (except_log node_b (recovery_logic mesh (calm (every minute (t0 + 150000000))) node_b
              (running [''10.0.0.2'' \<mapsto> incident_b]))) =
     ['' *RECOVERY:* Server *node-b* (10.0.0.2) is back online.'' @ [CHR 0x0A] @
      '' Was down for: 2 mins''] \<and>
   crashes (except_log node_b (recovery_logic mesh (calm (every minute (t0 + 40000000))) node_b
              (running [''10.0.0.2'' \<mapsto> incident_b]))) = Map.empty \<and>
   crash_history (except_log node_b (recovery_logic mesh (calm (every minute (t0 + 40000000))) node_b
              (running [''10.0.0.2'' \<mapsto> incident_b]))) = Map.empty \<and>
   alerts (except_log node_b (recovery_logic mesh (calm (every minute (t0 + 40000000))) node_b
              (running [''10.0.0.2'' \<mapsto> incident_b]))) = []"
  using recovery_resolves_incident[of "calm (every minute (t0 + 90000000))"
      "running [''10.0.0.2'' \<mapsto> incident_b]" node_b incident_b "t0 + 90000000"
      "except_log node_b (recovery_logic mesh (calm (every minute (t0 + 90000000))) node_b
              (running [''10.0.0.2'' \<mapsto> incident_b]))" mesh]
    recovery_resolves_incident[of "calm (every minute (t0 + 150000000))"
      "running [''10.0.0.2'' \<mapsto> incident_b]" node_b incident_b "t0 + 150000000"
      "except_log node_b (recovery_logic mesh (calm (every minute (t0 + 150000000))) node_b
              (running [''10.0.0.2'' \<mapsto> incident_b]))" mesh]
    recovery_resolves_incident[of "calm (every minute (t0 + 40000000))"
      "running [''10.0.0.2'' \<mapsto> incident_b]" node_b incident_b "t0 + 40000000"
      "except_log node_b (recovery_logic mesh (calm (every minute (t0 + 40000000))) node_b
              (running [''10.0.0.2'' \<mapsto> incident_b]))" mesh]
    strftime_example_90 strftime_example_150
  by (simp add: scenarios alerts_def minute_def whole_minutes_def
      str_int_def str_nat.simps digit_char_def)

text \<open>
  C10: the record is deleted before the archive is written. When the insert raises
  after the delete went through, the incident is in neither collection, and no alert
  was sent.
\<close>

theorem archive_not_atomic:
  assumes "crashes w (ip t) = Some r"
    and "store_fault e (store_calls w) = None"
    and "store_fault e (Suc (store_calls w)) = None"
    and "store_fault e (Suc (Suc (store_calls w))) = Some exn"
    and "minute \<le> clock e (clock_calls w) - down_since r"
  shows "\<exists>w'. recovery_logic cfg e t w = (Some exn, w') \<and>
      crashes w' (ip t) = None \<and> crash_history w' = crash_history w \<and> alerts w' = alerts w \<and>
      trace w' = trace w @ [Store (FindOne (ip t)), Store (DeleteOne (ip t)),
                            Store (InsertOne (archive_key (ip t) (clock e (clock_calls w))))]"
  using assms
  by (auto simp: recovery_logic_def prims store_defs whole_minutes_ge_1 Let_def
      split: option.splits prod.splits sum.splits)

theorem archive_not_atomic_witness:
  "\<exists>w'. recovery_logic mesh
           (scenario (\<lambda>k. Inr 200) (\<lambda>k url. Inr 200) (every minute (t0 + 90000000))
              (\<lambda>k. if k = 2 then Some ''AutoReconnect'' else None))
           node_b (running [''10.0.0.2'' \<mapsto> incident_b]) = (Some ''AutoReconnect'', w') \<and>
      crashes w' ''10.0.0.2'' = None \<and> crash_history w' = Map.empty \<and> alerts w' = [] \<and>
      trace w' = [Store (FindOne ''10.0.0.2''), Store (DeleteOne ''10.0.0.2''),
                  Store (InsertOne ''10.0.0.2_20231114_221450'')]"
  using archive_not_atomic[of "running [''10.0.0.2'' \<mapsto> incident_b]" node_b incident_b
      "scenario (\<lambda>k. Inr 200) (\<lambda>k url. Inr 200) (every minute (t0 + 90000000))
              (\<lambda>k. if k = 2 then Some ''AutoReconnect'' else None)" "''AutoReconnect''" mesh]
    key_example
  by (simp add: scenarios alerts_def minute_def)

section \<open>The confirmation\<close>

lemma retry_from_0:
  assumes "p0 = (peer_http e (ping_calls w) (health_url cfg (ip t)) = Inr 200)"
    and "p1 = (peer_http e (Suc (ping_calls w)) (health_url cfg (ip t)) = Inr 200)"
    and "p2 = (peer_http e (Suc (Suc (ping_calls w))) (health_url cfg (ip t)) = Inr 200)"
  shows "retry cfg e t 0 w =
     (p0 \<or> p1 \<or> p2,
      w\<lparr>ping_calls := ping_calls w + retry_attempts p0 p1 p2,
        trace := trace w @ concat (replicate (retry_attempts p0 p1 p2)
                   [Sleep INITIAL_BACKOFF_SECONDS, Get (health_url cfg (ip t))]) @
                 (if p0 \<or> p1 \<or> p2 then [Log INFO (RecoveredOnRetry (name t) (retry_attempts p0 p1 p2))]
                  else [])\<rparr>)"
  using assms
  by (auto simp: retry.simps[of cfg e t 0] retry.simps[of cfg e t "Suc 0"]
      retry.simps[of cfg e t "Suc (Suc 0)"] retry.simps[of cfg e t "Suc (Suc (Suc 0))"]
      MAX_RETRIES_def ping_peer_def except_return_False_def status_is_200_def prims
      retry_attempts_def numeral_2_eq_2 numeral_3_eq_3
      split: sum.splits)

text \<open>
  C6: for a peer that the scan found down, the connectivity is checked once; if that
  fails the peer's turn ends there, with that GET as its only effect. Otherwise the
  peer is probed up to three times, each probe after a sleep of ten seconds, up to the
  first success; the peer counts as alive exactly when one of the probes succeeded, and
  its turn goes on in the recovery branch then, in the crash branch otherwise.
\<close>

theorem confirmation_retry:
  assumes "peer_results (ip t) \<noteq> Some True"
    and "p0 = (peer_http e (ping_calls w) (health_url cfg (ip t)) = Inr 200)"
    and "p1 = (peer_http e (ping_calls w + 1) (health_url cfg (ip t)) = Inr 200)"
    and "p2 = (peer_http e (ping_calls w + 2) (health_url cfg (ip t)) = Inr 200)"
    and "w1 = snd (confirm cfg e t False w)"
  shows "(internet e (net_calls w) \<noteq> Inr 200 \<longrightarrow>
            process_target cfg e peer_results t w =
              w\<lparr>net_calls := Suc (net_calls w), trace := trace w @ [Get GOOGLE_HEALTH_CHECK_URL]\<rparr>) \<and>
         (internet e (net_calls w) = Inr 200 \<longrightarrow>
            fst (confirm cfg e t False w) = Some (p0 \<or> p1 \<or> p2) \<and>
            w1 = w\<lparr>net_calls := Suc (net_calls w),
                   ping_calls := ping_calls w + retry_attempts p0 p1 p2,
                   trace := trace w @
                     [Get GOOGLE_HEALTH_CHECK_URL, Log INFO (FailedCheckRetrying (name t) (ip t))] @
                     concat (replicate (retry_attempts p0 p1 p2)
                               [Sleep 10, Get (health_url cfg (ip t))]) @
                     (if p0 \<or> p1 \<or> p2
                      then [Log INFO (RecoveredOnRetry (name t) (retry_attempts p0 p1 p2))] else [])\<rparr> \<and>
            process_target cfg e peer_results t w =
              except_log t (if p0 \<or> p1 \<or> p2 then recovery_logic cfg e t w1 else crash_logic cfg e t w1))"
proof -
  let ?w0 = "w\<lparr>net_calls := Suc (net_calls w),
               trace := trace w @ [Get GOOGLE_HEALTH_CHECK_URL,
                                   Log INFO (FailedCheckRetrying (name t) (ip t))]\<rparr>"
  have down: "(case peer_results (ip t) of None \<Rightarrow> False | Some b \<Rightarrow> b) = False"
    using assms(1) by (cases "peer_results (ip t)") auto
  have r: "retry cfg e t 0 ?w0 =
     (p0 \<or> p1 \<or> p2,
      ?w0\<lparr>ping_calls := ping_calls ?w0 + retry_attempts p0 p1 p2,
        trace := trace ?w0 @ concat (replicate (retry_attempts p0 p1 p2)
                   [Sleep INITIAL_BACKOFF_SECONDS, Get (health_url cfg (ip t))]) @
                 (if p0 \<or> p1 \<or> p2 then [Log INFO (RecoveredOnRetry (name t) (retry_attempts p0 p1 p2))]
                  else [])\<rparr>)"
    by (rule retry_from_0) (simp_all add: assms)
  show ?thesis
    unfolding process_target_def down confirm_def assms(5)
    by (simp add: check_external_connectivity_def except_return_False_def status_is_200_def prims
        r INITIAL_BACKOFF_SECONDS_def split: sum.splits)
qed

theorem confirmation_retry_witness:
  "fst (confirm mesh (scenario (\<lambda>k. Inr 200) (\<lambda>k url. if k = 1 then Inr 200 else Inl Timeout)
           (every minute t0) (\<lambda>k. None)) node_b False (running Map.empty)) = Some True \<and>
   trace (snd (confirm mesh (scenario (\<lambda>k. Inr 200) (\<lambda>k url. if k = 1 then Inr 200 else Inl Timeout)
           (every minute t0) (\<lambda>k. None)) node_b False (running Map.empty))) =
     [Get ''https://www.google.com'', Log INFO (FailedCheckRetrying ''node-b'' ''10.0.0.2''),
      Sleep 10, Get ''http://10.0.0.2:8051/health'', Sleep 10, Get ''http://10.0.0.2:8051/health'',
      Log INFO (RecoveredOnRetry ''node-b'' 2)] \<and>
   process_target mesh (scenario (\<lambda>k. Inl NetworkError) (\<lambda>k url. Inl Timeout) (every minute t0) (\<lambda>k. None))
       [''10.0.0.2'' \<mapsto> False] node_b (running Map.empty) =
     (running Map.empty)\<lparr>net_calls := 1, trace := [Get ''https://www.google.com'']\<rparr>"
  using confirmation_retry[of "[''10.0.0.2'' \<mapsto> False]" node_b False
      "scenario (\<lambda>k. Inr 200) (\<lambda>k url. if k = 1 then Inr 200 else Inl Timeout) (every minute t0) (\<lambda>k. None)"
      "running Map.empty" mesh True False
      "snd (confirm mesh (scenario (\<lambda>k. Inr 200) (\<lambda>k url. if k = 1 then Inr 200 else Inl Timeout)
           (every minute t0) (\<lambda>k. None)) node_b False (running Map.empty))"]
    confirmation_retry[of "[''10.0.0.2'' \<mapsto> False]" node_b False
      "scenario (\<lambda>k. Inl NetworkError) (\<lambda>k url. Inl Timeout) (every minute t0) (\<lambda>k. None)"
      "running Map.empty" mesh False False
      "snd (confirm mesh (scenario (\<lambda>k. Inl NetworkError) (\<lambda>k url. Inl Timeout) (every minute t0) (\<lambda>k. None)) node_b False (running Map.empty))"]
  by (simp add: url_examples node_simps scenario_def running_def process_start_def retry_attempts_def
      GOOGLE_HEALTH_CHECK_URL_def numeral_2_eq_2)

section \<open>What a peer's turn adds to the trace\<close>

lemma retry_trace:
  "\<exists>evs. trace (snd (retry cfg e t attempt w)) = trace w @ evs \<and> (\<forall>m. Alert m \<notin> set evs)"
proof (induction cfg e t attempt w rule: retry.induct)
  case (1 cfg e t attempt w)
  show ?case
  proof (cases "attempt < MAX_RETRIES")
    case False
    then show ?thesis by (simp add: retry.simps[of cfg e t attempt w])
  next
    case True
    obtain r w' where p: "ping_peer e (health_url cfg (ip t)) (sleep INITIAL_BACKOFF_SECONDS w) = (r, w')"
      by (cases "ping_peer e (health_url cfg (ip t)) (sleep INITIAL_BACKOFF_SECONDS w)") auto
    then have tr: "trace w' = trace w @ [Sleep INITIAL_BACKOFF_SECONDS, Get (health_url cfg (ip t))]"
      by (auto simp: ping_peer_def prims)
    show ?thesis
    proof (cases "r = Inr True")
      case True
      with \<open>attempt < MAX_RETRIES\<close> p tr show ?thesis
        by (simp add: retry.simps[of cfg e t attempt w] prims)
    next
      case False
      from "1.IH"[OF \<open>attempt < MAX_RETRIES\<close> p[symmetric] False] obtain evs where
        "trace (snd (retry cfg e t (Suc attempt) w')) = trace w' @ evs" "\<forall>m. Alert m \<notin> set evs"
        by blast
      with \<open>attempt < MAX_RETRIES\<close> p tr False show ?thesis
        by (simp add: retry.simps[of cfg e t attempt w])
    qed
  qed
qed

lemma confirm_trace:
  "\<exists>evs. trace (snd (confirm cfg e t a w)) = trace w @ evs \<and> (\<forall>m. Alert m \<notin> set evs)
     \<and> (\<not> a \<longrightarrow> evs \<noteq> [])"
proof (cases a)
  case True
  then show ?thesis by (simp add: confirm_def)
next
  case False
  let ?w1 = "snd (check_external_connectivity e w)"
  let ?w0 = "logger INFO (FailedCheckRetrying (name t) (ip t)) ?w1"
  from retry_trace[of cfg e t 0 ?w0] obtain evs where
    evs: "trace (snd (retry cfg e t 0 ?w0)) = trace ?w0 @ evs" "\<forall>m. Alert m \<notin> set evs"
    by blast
  have t0: "trace ?w0 = trace w @ [Get GOOGLE_HEALTH_CHECK_URL, Log INFO (FailedCheckRetrying (name t) (ip t))]"
    by (simp add: check_external_connectivity_def prims)
  have t1: "trace ?w1 = trace w @ [Get GOOGLE_HEALTH_CHECK_URL]"
    by (simp add: check_external_connectivity_def prims)
  show ?thesis
    using False evs t0 t1
    by (auto simp: confirm_def split: prod.splits)
qed

lemma isolation_message_differs:
  "recovery_message tname tip mins \<noteq> isolation_message cfg"
  "alert_message t current_time crash_doc \<noteq> isolation_message cfg"
  "reconnected_message cfg' \<noteq> isolation_message cfg"
  "isolation_message cfg \<noteq> recovery_message tname tip mins"
  "isolation_message cfg \<noteq> alert_message t current_time crash_doc"
  "isolation_message cfg \<noteq> reconnected_message cfg'"
  by (simp_all add: recovery_message_def alert_message_def crash_message_def reminder_marker_def
      reconnected_message_def isolation_message_def Let_def)

lemma recovery_trace:
  "\<exists>evs. trace (snd (recovery_logic cfg e t w)) = trace w @ evs \<and> evs \<noteq> []
      \<and> Alert (isolation_message cfg') \<notin> set evs"
  by (auto simp: recovery_logic_def prims store_defs Let_def isolation_message_differs
      split: option.splits prod.splits sum.splits)

lemma crash_trace:
  "\<exists>evs. trace (snd (crash_logic cfg e t w)) = trace w @ evs \<and> evs \<noteq> []
      \<and> Alert (isolation_message cfg') \<notin> set evs"
  by (auto simp: crash_logic_def prims store_defs isolation_message_differs
      split: option.splits prod.splits sum.splits)

lemma except_log_trace:
  "\<exists>evs. trace (except_log t b) = trace (snd b) @ evs \<and> (\<forall>m. Alert m \<notin> set evs)"
  by (auto simp: except_log_def prims split: option.splits prod.splits)

lemma process_target_trace:
  "\<exists>evs. trace (process_target cfg e res t w) = trace w @ evs \<and> evs \<noteq> []
      \<and> Alert (isolation_message cfg') \<notin> set evs"
proof -
  let ?a = "case res (ip t) of None \<Rightarrow> False | Some b \<Rightarrow> b"
  obtain c w1 where c: "confirm cfg e t ?a w = (c, w1)"
    by (cases "confirm cfg e t ?a w") auto
  from confirm_trace[of cfg e t ?a w] c obtain evs1 where
    e1: "trace w1 = trace w @ evs1" "\<forall>m. Alert m \<notin> set evs1" "\<not> ?a \<longrightarrow> evs1 \<noteq> []"
    by auto
  show ?thesis
  proof (cases c)
    case None
    then have "\<not> ?a" using c by (auto simp: confirm_def split: if_splits prod.splits)
    with None c e1 show ?thesis by (simp add: process_target_def)
  next
    case (Some is_alive)
    let ?b = "if is_alive then recovery_logic cfg e t w1 else crash_logic cfg e t w1"
    from recovery_trace[of cfg e t w1 cfg'] crash_trace[of cfg e t w1 cfg'] obtain evs2 where
      e2: "trace (snd ?b) = trace w1 @ evs2" "evs2 \<noteq> []" "Alert (isolation_message cfg') \<notin> set evs2"
      by (cases is_alive) auto
    from except_log_trace[of t ?b] obtain evs3 where
      e3: "trace (except_log t ?b) = trace (snd ?b) @ evs3" "\<forall>m. Alert m \<notin> set evs3"
      by blast
    have "trace (process_target cfg e res t w) = trace w @ (evs1 @ evs2 @ evs3)"
      using Some c e1 e2 e3 by (simp add: process_target_def)
    moreover have "evs1 @ evs2 @ evs3 \<noteq> []" using e2 by simp
    moreover have "Alert (isolation_message cfg') \<notin> set (evs1 @ evs2 @ evs3)"
      using e1 e2 e3 by simp
    ultimately show ?thesis by blast
  qed
qed

lemma process_targets_trace:
  "\<exists>evs. trace (process_targets cfg e res ts w) = trace w @ evs \<and> length ts \<le> length evs
      \<and> Alert (isolation_message cfg') \<notin> set evs"
proof (induction ts arbitrary: w)
  case Nil
  then show ?case by simp
next
  case (Cons t ts)
  from process_target_trace[of cfg e res t w cfg'] obtain evs1 where
    e1: "trace (process_target cfg e res t w) = trace w @ evs1" "evs1 \<noteq> []"
      "Alert (isolation_message cfg') \<notin> set evs1"
    by blast
  from Cons.IH[of "process_target cfg e res t w"] obtain evs2 where
    e2: "trace (process_targets cfg e res ts (process_target cfg e res t w)) =
           trace (process_target cfg e res t w) @ evs2" "length ts \<le> length evs2"
      "Alert (isolation_message cfg') \<notin> set evs2"
    by blast
  have "trace (process_targets cfg e res (t # ts) w) = trace w @ (evs1 @ evs2)"
    using e1 e2 by simp
  moreover have "length (t # ts) \<le> length (evs1 @ evs2)"
    using e1(2) e2(2) by (cases evs1) auto
  moreover have "Alert (isolation_message cfg') \<notin> set (evs1 @ evs2)"
    using e1 e2 by simp
  ultimately show ?case by blast
qed

text \<open>
  C7: when the body of a peer's \<^verbatim>\<open>try\<close> raises, the exception is logged with the
  peer's name, the loop goes on with the peers that remain, and each of them has its
  turn: every turn leaves at least one event.
\<close>

theorem per_peer_failure_is_contained:
  assumes "confirm cfg e t (case peer_results (ip t) of None \<Rightarrow> False | Some b \<Rightarrow> b) w = (Some is_alive, w1)"
    and "(if is_alive then recovery_logic cfg e t w1 else crash_logic cfg e t w1) = (Some exn, w2)"
  shows "process_target cfg e peer_results t w = logger ERROR (ErrorProcessing (name t) exn) w2 \<and>
    process_targets cfg e peer_results (t # ts) w =
      process_targets cfg e peer_results ts (logger ERROR (ErrorProcessing (name t) exn) w2) \<and>
    length (trace w2) + 1 + length ts \<le> length (trace (process_targets cfg e peer_results (t # ts) w))"
proof -
  have pt: "process_target cfg e peer_results t w = logger ERROR (ErrorProcessing (name t) exn) w2"
    using assms by (simp add: process_target_def except_log_def)
  from process_targets_trace[of cfg e peer_results ts "logger ERROR (ErrorProcessing (name t) exn) w2" cfg]
  obtain evs where "trace (process_targets cfg e peer_results ts (logger ERROR (ErrorProcessing (name t) exn) w2)) =
      trace (logger ERROR (ErrorProcessing (name t) exn) w2) @ evs" "length ts \<le> length evs"
    by blast
  then show ?thesis using pt by (simp add: prims)
qed

theorem per_peer_failure_is_contained_witness:
  "process_target mesh
     (scenario (\<lambda>k. Inr 200) (\<lambda>k url. Inr 200) (every minute t0)
        (\<lambda>k. if k = 0 then Some ''NetworkTimeout'' else None))
     [''10.0.0.2'' \<mapsto> True, ''10.0.0.3'' \<mapsto> True] node_b (running Map.empty) =
     (running Map.empty)\<lparr>store_calls := 1,
        trace := [Store (FindOne ''10.0.0.2''), Log ERROR (ErrorProcessing ''node-b'' ''NetworkTimeout'')]\<rparr> \<and>
   process_targets mesh
     (scenario (\<lambda>k. Inr 200) (\<lambda>k url. Inr 200) (every minute t0)
        (\<lambda>k. if k = 0 then Some ''NetworkTimeout'' else None))
     [''10.0.0.2'' \<mapsto> True, ''10.0.0.3'' \<mapsto> True] [node_b, node_c] (running Map.empty) =
     (running Map.empty)\<lparr>store_calls := 2,
        trace := [Store (FindOne ''10.0.0.2''), Log ERROR (ErrorProcessing ''node-b'' ''NetworkTimeout''),
                  Store (FindOne ''10.0.0.3'')]\<rparr>"
  using per_peer_failure_is_contained[of mesh
      "scenario (\<lambda>k. Inr 200) (\<lambda>k url. Inr 200) (every minute t0)
        (\<lambda>k. if k = 0 then Some ''NetworkTimeout'' else None)"
      node_b "[''10.0.0.2'' \<mapsto> True, ''10.0.0.3'' \<mapsto> True]" "running Map.empty" True
      "running Map.empty" "''NetworkTimeout''"
      "(running Map.empty)\<lparr>store_calls := 1, trace := [Store (FindOne ''10.0.0.2'')]\<rparr>" "[node_c]"]
  by (simp add: node_simps scenario_def running_def process_start_def confirm_def recovery_logic_def
      process_target_def except_log_def prims store_defs)

section \<open>The tick\<close>

lemma scan_result:
  "\<exists>cnt' res'. scan cfg e ts cnt res w =
      (cnt', res',
       w\<lparr>ping_calls := ping_calls w + length ts,
         trace := trace w @ map (\<lambda>t. Get (health_url cfg (ip t))) ts\<rparr>) \<and>
     cnt \<le> cnt' \<and>
     (cnt' = cnt) =
       (\<forall>j<length ts. peer_http e (ping_calls w + j) (health_url cfg (ip (ts ! j))) \<noteq> Inr 200)"
proof (induction ts arbitrary: cnt res w)
  case Nil
  then show ?case by simp
next
  case (Cons t ts)
  let ?ok = "peer_http e (ping_calls w) (health_url cfg (ip t)) = Inr 200"
  let ?w = "w\<lparr>ping_calls := Suc (ping_calls w), trace := trace w @ [Get (health_url cfg (ip t))]\<rparr>"
  have p: "ping_peer e (health_url cfg (ip t)) w = (Inr ?ok, ?w)"
    by (auto simp: ping_peer_def except_return_False_def status_is_200_def prims split: sum.splits)
  from Cons.IH[of "if ?ok then Suc cnt else cnt" "res(ip t \<mapsto> ?ok)" ?w]
  obtain cnt' res' where
    s: "scan cfg e ts (if ?ok then Suc cnt else cnt) (res(ip t \<mapsto> ?ok)) ?w =
          (cnt', res', ?w\<lparr>ping_calls := ping_calls ?w + length ts,
             trace := trace ?w @ map (\<lambda>t. Get (health_url cfg (ip t))) ts\<rparr>)"
    and le: "(if ?ok then Suc cnt else cnt) \<le> cnt'"
    and eq: "(cnt' = (if ?ok then Suc cnt else cnt)) =
       (\<forall>j<length ts. peer_http e (ping_calls ?w + j) (health_url cfg (ip (ts ! j))) \<noteq> Inr 200)"
    by blast
  have "scan cfg e (t # ts) cnt res w =
      (cnt', res',
       w\<lparr>ping_calls := ping_calls w + length (t # ts),
         trace := trace w @ map (\<lambda>t. Get (health_url cfg (ip t))) (t # ts)\<rparr>)"
    using s by (simp add: p)
  moreover have "cnt \<le> cnt'" using le by (simp split: if_splits)
  moreover have "(cnt' = cnt) =
       (\<forall>j<length (t # ts). peer_http e (ping_calls w + j) (health_url cfg (ip ((t # ts) ! j))) \<noteq> Inr 200)"
    using le eq by (auto simp: All_less_Suc2 split: if_splits)
  ultimately show ?case by blast
qed

lemma in_alerts: "(m \<in> set [m'. Alert m' \<leftarrow> evs]) = (Alert m \<in> set evs)"
  by (induction evs) (auto split: event.splits)

lemma no_Alert_map_Get: "[m. Alert m \<leftarrow> map (\<lambda>t. Get (f t)) ts] = []"
  by (induction ts) auto

lemma isolation_tick:
  assumes "cnt = fst (scan cfg e (TARGETS cfg) 0 Map.empty (snd (check_external_connectivity e w)))"
    and "monitor_tick cfg e (was, w) = (was', w')"
  shows "(db_handle w \<and> internet e (net_calls w) = Inr 200 \<longrightarrow>
      is_isolated cfg cnt =
        (length (TARGETS cfg) > 0 \<and>
         (\<forall>j<length (TARGETS cfg).
            peer_http e (ping_calls w + j) (health_url cfg (ip (TARGETS cfg ! j))) \<noteq> Inr 200)) \<and>
      count_list (drop (length (alerts w)) (alerts w')) (isolation_message cfg) =
        (if is_isolated cfg cnt \<and> \<not> was then 1 else 0) \<and>
      was' = is_isolated cfg cnt \<and>
      (is_isolated cfg cnt \<longrightarrow>
         was' \<and>
         w' = w\<lparr>net_calls := Suc (net_calls w),
                ping_calls := ping_calls w + length (TARGETS cfg),
                trace := trace w @
                  Get GOOGLE_HEALTH_CHECK_URL #
                  map (\<lambda>t. Get (health_url cfg (ip t))) (TARGETS cfg) @
                  (if was then [Log INFO StillIsolated, Sleep 30]
                   else [Log WARNING (IsolationDetected (MY_SERVER_ID cfg)),
                         Alert (isolation_message cfg), Sleep 30])\<rparr>)) \<and>
    (\<not> (db_handle w \<and> internet e (net_calls w) = Inr 200) \<longrightarrow>
      was' = was \<and> alerts w' = alerts w \<and> crashes w' = crashes w \<and>
      crash_history w' = crash_history w \<and> ping_calls w' = ping_calls w)"
proof -
  let ?w1 = "w\<lparr>net_calls := Suc (net_calls w), trace := trace w @ [Get GOOGLE_HEALTH_CHECK_URL]\<rparr>"
  have c: "check_external_connectivity e w = (Inr (internet e (net_calls w) = Inr 200), ?w1)"
    by (auto simp: check_external_connectivity_def except_return_False_def status_is_200_def prims
        split: sum.splits)
  from scan_result[of cfg e "TARGETS cfg" 0 Map.empty ?w1] obtain cnt' res where
    s: "scan cfg e (TARGETS cfg) 0 Map.empty ?w1 =
         (cnt', res,
          ?w1\<lparr>ping_calls := ping_calls ?w1 + length (TARGETS cfg),
            trace := trace ?w1 @ map (\<lambda>t. Get (health_url cfg (ip t))) (TARGETS cfg)\<rparr>)"
    and z: "(cnt' = 0) =
       (\<forall>j<length (TARGETS cfg).
          peer_http e (ping_calls ?w1 + j) (health_url cfg (ip (TARGETS cfg ! j))) \<noteq> Inr 200)"
    by blast
  let ?w2 = "?w1\<lparr>ping_calls := ping_calls ?w1 + length (TARGETS cfg),
            trace := trace ?w1 @ map (\<lambda>t. Get (health_url cfg (ip t))) (TARGETS cfg)\<rparr>"
  have cnt: "cnt = cnt'" using assms(1) s by (simp add: c)
  have a2: "alerts ?w2 = alerts w"
    by (simp add: alerts_def no_Alert_map_Get)
  have guard: ?thesis if "\<not> (db_handle w \<and> internet e (net_calls w) = Inr 200)"
  proof (cases "db_handle w")
    case True
    with that assms(2) show ?thesis by (auto simp: monitor_tick_def c prims)
  next
    case False
    with assms(2) show ?thesis by (auto simp: monitor_tick_def prims)
  qed
  have main: ?thesis if g: "db_handle w" "internet e (net_calls w) = Inr 200"
  proof -
    have iso: "is_isolated cfg cnt =
        (length (TARGETS cfg) > 0 \<and>
         (\<forall>j<length (TARGETS cfg).
            peer_http e (ping_calls w + j) (health_url cfg (ip (TARGETS cfg ! j))) \<noteq> Inr 200))"
      using z by (simp add: is_isolated_def cnt)
    show ?thesis
    proof (cases "is_isolated cfg cnt")
      case True
      with assms(2) g s cnt iso show ?thesis
        by (auto simp: monitor_tick_def c prims no_Alert_map_Get)
    next
      case False
      let ?w3 = "if was then send_slack_alert (reconnected_message cfg) (logger INFO ConnectionRestored ?w2)
                 else ?w2"
      have w': "w' = sleep 30 (process_targets cfg e res (TARGETS cfg) ?w3)"
        using assms(2) g s cnt False by (auto simp: monitor_tick_def c)
      from process_targets_trace[of cfg e res "TARGETS cfg" ?w3 cfg] obtain evs where
        evs: "trace (process_targets cfg e res (TARGETS cfg) ?w3) = trace ?w3 @ evs"
          "Alert (isolation_message cfg) \<notin> set evs"
        by blast
      have "alerts w' = alerts w @ (if was then [reconnected_message cfg] else []) @ [m. Alert m \<leftarrow> evs]"
        using evs(1) by (simp add: w' alerts_def prims no_Alert_map_Get)
      then have "count_list (drop (length (alerts w)) (alerts w')) (isolation_message cfg) = 0"
        using evs(2) by (simp add: count_list_0_iff in_alerts isolation_message_differs)
      moreover have "\<not> was'"
        using assms(2) g s cnt False by (auto simp: monitor_tick_def c split: if_splits)
      ultimately show ?thesis using False iso g by auto
    qed
  qed
  from guard main show ?thesis by blast
qed

text \<open>
  C1: on a tick that passes the two guards, \<open>is_isolated\<close> holds exactly when there
  is a target and no probe of the scan succeeded, and it is the value of
  \<open>was_isolated\<close> after the tick; the tick sends the isolation alert, which names
  the local instance, once if \<open>is_isolated\<close> holds and the monitor was connected, and
  not at all otherwise: once for each passage from connected to isolated. On an
  isolated tick nothing follows the scan but the log line, the alert when entering, and
  the sleep: no peer has a turn. A tick stopped by a guard sends nothing and keeps the
  state of the detector.
\<close>

theorem isolation_detector:
  assumes "cnt = fst (scan cfg e (TARGETS cfg) 0 Map.empty (snd (check_external_connectivity e w)))"
    and "monitor_tick cfg e (was, w) = (was', w')"
  shows "((db_handle w \<and> internet e (net_calls w) = Inr 200 \<longrightarrow>
      is_isolated cfg cnt =
        (length (TARGETS cfg) > 0 \<and>
         (\<forall>j<length (TARGETS cfg).
            peer_http e (ping_calls w + j) (health_url cfg (ip (TARGETS cfg ! j))) \<noteq> Inr 200)) \<and>
      count_list (drop (length (alerts w)) (alerts w')) (isolation_message cfg) =
        (if is_isolated cfg cnt \<and> \<not> was then 1 else 0) \<and>
      was' = is_isolated cfg cnt \<and>
      (is_isolated cfg cnt \<longrightarrow>
         was' \<and>
         w' = w\<lparr>net_calls := Suc (net_calls w),
                ping_calls := ping_calls w + length (TARGETS cfg),
                trace := trace w @
                  Get GOOGLE_HEALTH_CHECK_URL #
                  map (\<lambda>t. Get (health_url cfg (ip t))) (TARGETS cfg) @
                  (if was then [Log INFO StillIsolated, Sleep 30]
                   else [Log WARNING (IsolationDetected (MY_SERVER_ID cfg)),
                         Alert (isolation_message cfg), Sleep 30])\<rparr>)) \<and>
    (\<not> (db_handle w \<and> internet e (net_calls w) = Inr 200) \<longrightarrow>
      was' = was \<and> alerts w' = alerts w \<and> crashes w' = crashes w \<and>
      crash_history w' = crash_history w \<and> ping_calls w' = ping_calls w)) \<and>
    isolation_message cfg =
      ''*MONITOR ISOLATED:* *'' @ MY_SERVER_ID cfg @ ''* cannot reach ANY peers.'' @ [CHR 0x0A] @
      ''Please verify manually.''"
  using isolation_tick[OF assms]
  by (simp only: simp_thms isolation_message_def newline_def)

theorem isolation_detector_witness:
  "is_isolated mesh (fst (scan mesh (calm (every minute t0)) (TARGETS mesh) 0 Map.empty
       (snd (check_external_connectivity (calm (every minute t0)) (running Map.empty))))) \<and>
   count_list (alerts (snd (monitor_tick mesh (calm (every minute t0)) (False, running Map.empty))))
     (isolation_message mesh) = 1 \<and>
   monitor_tick mesh (calm (every minute t0)) (False, running Map.empty) =
     (True,
      (running Map.empty)\<lparr>net_calls := 1, ping_calls := 2,
         trace := [Get ''https://www.google.com'', Get ''http://10.0.0.2:8051/health'',
                   Get ''http://10.0.0.3:8051/health'', Log WARNING (IsolationDetected ''node-a''),
                   Alert (isolation_message mesh), Sleep 30]\<rparr>) \<and>
   \<not> is_isolated mesh (fst (scan mesh (scenario (\<lambda>k. Inr 200) (\<lambda>k url. Inr 200) (every minute t0) (\<lambda>k. None))
       (TARGETS mesh) 0 Map.empty
       (snd (check_external_connectivity (scenario (\<lambda>k. Inr 200) (\<lambda>k url. Inr 200) (every minute t0) (\<lambda>k. None))
          (running Map.empty))))) \<and>
   \<not> fst (monitor_tick mesh (scenario (\<lambda>k. Inr 200) (\<lambda>k url. Inr 200) (every minute t0) (\<lambda>k. None))
       (True, running Map.empty)) \<and>
   alerts (snd (monitor_loop mesh flapping 3 (False, running Map.empty))) =
     [isolation_message mesh, reconnected_message mesh, isolation_message mesh]"
proof -
  have three: "alerts (snd (monitor_loop mesh flapping 3 (False, running Map.empty))) =
     [isolation_message mesh, reconnected_message mesh, isolation_message mesh]"
    by (simp add: numeral_3_eq_3 monitor_tick_def check_external_connectivity_def ping_peer_def
        except_return_False_def status_is_200_def is_isolated_def process_target_def confirm_def
        recovery_logic_def except_log_def prims store_defs flapping_def
        url_examples node_simps mesh_simps scenario_def running_def process_start_def)
  show ?thesis
    using isolation_detector[of
      "fst (scan mesh (calm (every minute t0)) (TARGETS mesh) 0 Map.empty
         (snd (check_external_connectivity (calm (every minute t0)) (running Map.empty))))"
      mesh "calm (every minute t0)" "running Map.empty" False
      "fst (monitor_tick mesh (calm (every minute t0)) (False, running Map.empty))"
      "snd (monitor_tick mesh (calm (every minute t0)) (False, running Map.empty))"]
     isolation_detector[of
      "fst (scan mesh (scenario (\<lambda>k. Inr 200) (\<lambda>k url. Inr 200) (every minute t0) (\<lambda>k. None))
         (TARGETS mesh) 0 Map.empty
         (snd (check_external_connectivity (scenario (\<lambda>k. Inr 200) (\<lambda>k url. Inr 200) (every minute t0) (\<lambda>k. None))
            (running Map.empty))))"
      mesh "scenario (\<lambda>k. Inr 200) (\<lambda>k url. Inr 200) (every minute t0) (\<lambda>k. None)" "running Map.empty" True
      "fst (monitor_tick mesh (scenario (\<lambda>k. Inr 200) (\<lambda>k url. Inr 200) (every minute t0) (\<lambda>k. None))
         (True, running Map.empty))"
      "snd (monitor_tick mesh (scenario (\<lambda>k. Inr 200) (\<lambda>k url. Inr 200) (every minute t0) (\<lambda>k. None))
         (True, running Map.empty))"]
     three
    by (auto simp: url_examples node_simps mesh_simps calm_def scenario_def running_def process_start_def
      GOOGLE_HEALTH_CHECK_URL_def alerts_def prod_eq_iff)
qed

section \<open>Startup without the store\<close>

lemma waiting_loop:
  "\<not> db_handle w \<Longrightarrow>
   monitor_loop cfg e n (was, w) =
     (was, w\<lparr>trace := trace w @ concat (replicate n [Log WARNING WaitingForDB, Sleep 30])\<rparr>)"
proof (induction n arbitrary: w)
  case 0
  then show ?case by simp
next
  case (Suc n)
  let ?w = "w\<lparr>trace := trace w @ [Log WARNING WaitingForDB, Sleep 30]\<rparr>"
  have "monitor_tick cfg e (was, w) = (was, ?w)"
    using Suc.prems by (simp add: monitor_tick_def prims)
  moreover have "\<not> db_handle ?w" using Suc.prems by simp
  ultimately show ?case using Suc.IH[of ?w] by simp
qed

text \<open>
  C8 as stated says that processing resumes once the store is available again. It does
  not: in the environment \<open>outage\<close> the store answers from the first tick on, and yet
  no number of ticks brings a single probe.
\<close>

theorem processing_never_resumes:
  "(\<forall>k. store_fault outage k = None) \<and>
   \<not> (\<exists>n url. Get url \<in> set (trace (snd (monitor_peers mesh outage n
         (lifespan mesh outage (process_start Map.empty Map.empty))))))"
proof -
  let ?w = "logger INFO (MonitoringStarted (MY_SERVER_ID mesh) (map name (TARGETS mesh)))
              (sleep 5 (lifespan mesh outage (process_start Map.empty Map.empty)))"
  have h: "\<not> db_handle ?w"
    by (simp add: lifespan_def outage_def mesh_simps process_start_def prims)
  have t: "trace ?w = [Log ERROR (DBConnectFail ''ServerSelectionTimeoutError''), Sleep 5,
      Log INFO (MonitoringStarted (MY_SERVER_ID mesh) (map name (TARGETS mesh)))]"
    by (simp add: lifespan_def outage_def mesh_simps process_start_def prims)
  have "Get url \<notin> set (trace (snd (monitor_peers mesh outage n
         (lifespan mesh outage (process_start Map.empty Map.empty)))))" for n url
    unfolding monitor_peers_def waiting_loop[OF h]
    by (auto simp: t)
  moreover have "\<forall>k. store_fault outage k = None"
    by (simp add: outage_def)
  ultimately show ?thesis by blast
qed

text \<open>
  C8, as amended: when no URI is configured or the connection fails at startup, the
  monitor task runs and every tick only logs the warning and sleeps, for any number of
  ticks and whatever the store would answer later: the connection is made at startup
  only.
\<close>

theorem store_unavailable_at_startup:
  assumes "MONGO_URI cfg = [] \<or> connect_fault e = Some exn"
  shows "monitor_peers cfg e n (lifespan cfg e (process_start active hist)) =
    (False,
     (process_start active hist)
       \<lparr>trace := (if MONGO_URI cfg = [] then [] else [Log ERROR (DBConnectFail exn)]) @
                 [Sleep 5, Log INFO (MonitoringStarted (MY_SERVER_ID cfg) (map name (TARGETS cfg)))] @
                 concat (replicate n [Log WARNING WaitingForDB, Sleep 30])\<rparr>)"
proof -
  let ?w = "logger INFO (MonitoringStarted (MY_SERVER_ID cfg) (map name (TARGETS cfg)))
              (sleep 5 (lifespan cfg e (process_start active hist)))"
  have "\<not> db_handle ?w"
    using assms by (auto simp: lifespan_def process_start_def prims)
  from waiting_loop[OF this, of cfg e n False] show ?thesis
    using assms by (auto simp: monitor_peers_def lifespan_def process_start_def prims)
qed

theorem store_unavailable_at_startup_witness:
  "monitor_peers mesh outage 2 (lifespan mesh outage (process_start Map.empty Map.empty)) =
     (False,
      (process_start Map.empty Map.empty)
        \<lparr>trace := [Log ERROR (DBConnectFail ''ServerSelectionTimeoutError''), Sleep 5,
                   Log INFO (MonitoringStarted ''node-a'' [''node-b'', ''node-c'']),
                   Log WARNING WaitingForDB, Sleep 30, Log WARNING WaitingForDB, Sleep 30]\<rparr>)"
  using store_unavailable_at_startup[of mesh outage "''ServerSelectionTimeoutError''" 2 Map.empty Map.empty]
  by (simp add: node_simps mesh_simps outage_def numeral_2_eq_2)

end
